theory Spec2Isabelle
  imports Complex_Main
begin

section \<open>Conventions of the embedding\<close>

text \<open>
  The forecast-to-decision pipeline of the repository is embedded function by function.

  \<^item> Python floats are modelled as \<^typ>\<open>real\<close>: rounding, overflow, infinities and NaN of
    IEEE arithmetic are outside the model. A pandas null (NaN or None) is \<^term>\<open>None\<close>.
  \<^item> A \<^verbatim>\<open>datetime.date\<close> is its day ordinal, an \<^typ>\<open>int\<close>; \<^verbatim>\<open>date + timedelta(days=k)\<close>
    is addition and \<^verbatim>\<open>(d1 - d2).days\<close> is subtraction. The strings that the code prints
    with \<^verbatim>\<open>strftime\<close> and reads back with \<^verbatim>\<open>strptime\<close> are kept as ordinals; a date
    string that comes from the request is a \<^typ>\<open>string\<close> and its parser is a parameter.
  \<^item> A raised exception is the \<^term>\<open>Inl\<close> branch of a sum; a \<^verbatim>\<open>try/except\<close> is a case
    distinction on that sum.
  \<^item> The trained models, the data store and the web framework are collaborators of the
    code: they appear as parameters of the functions that call them.
\<close>

datatype py_exception =
    HTTPException (status_code: nat) (detail: string)
  | ValueError
  | ZeroDivisionError
  | PredictorError string

section \<open>Optimization advisor (\<^verbatim>\<open>ml/archive/ml_endpoints.py\<close>)\<close>

record OptimizationRequest =
  current_stock :: real
  perish_date :: "string option"
  safety_buffer_days :: int

record PredictionDataPoint =
  date :: int
  actual :: "real option"
  predicted :: "real option"
  confidence_low :: "real option"
  confidence_high :: "real option"

text \<open>The \<^verbatim>\<open>details\<close> dictionary of the response, one field per key.\<close>

record OptimizationDetails =
  details_current_stock :: real
  predicted_30_day_consumption :: real
  avg_daily_consumption :: real
  days_until_runout :: "int option"
  stock_coverage_days :: int
  details_perish_date :: "string option"
  details_safety_buffer_days :: int

record OptimizationResponse =
  sku_id :: string
  runout_date :: "int option"
  waste_risk :: bool
  suggested_action :: string
  details :: OptimizationDetails

subsection \<open>The runout walk\<close>

text \<open>
  \<^verbatim>\<open>
  cumulative_consumption = 0
  runout_date = None
  for i, daily_consumption in enumerate(predictions):
      cumulative_consumption += daily_consumption
      if cumulative_consumption >= current_stock:
          runout_date = (datetime.now().date() + timedelta(days=i+1)).strftime("%Y-%m-%d")
          break
  \<close>
  \<open>runout_walk\<close> is the loop with its two variables as arguments; it returns the day
  offset \<open>i + 1\<close> of the \<^verbatim>\<open>break\<close>, and \<^term>\<open>None\<close> when the loop runs to its end.
\<close>

fun runout_walk :: "real \<Rightarrow> real \<Rightarrow> nat \<Rightarrow> real list \<Rightarrow> nat option" where
  "runout_walk stock cumulative_consumption i [] = None"
| "runout_walk stock cumulative_consumption i (daily_consumption # rest) =
     (let cumulative_consumption' = cumulative_consumption + daily_consumption
      in if cumulative_consumption' \<ge> stock then Some (i + 1)
         else runout_walk stock cumulative_consumption' (i + 1) rest)"

definition calc_runout_date :: "int \<Rightarrow> real \<Rightarrow> real list \<Rightarrow> int option" where
  "calc_runout_date today stock predictions =
     map_option (\<lambda>k. today + int k) (runout_walk stock 0 0 predictions)"

text \<open>
  \<^verbatim>\<open>
  days_until_runout = None
  if runout_date:
      runout_datetime = datetime.strptime(runout_date, "%Y-%m-%d").date()
      days_until_runout = (runout_datetime - datetime.now().date()).days
  \<close>
\<close>

definition calc_days_until_runout :: "int \<Rightarrow> int option \<Rightarrow> int option" where
  "calc_days_until_runout today rd = map_option (\<lambda>r. r - today) rd"

subsection \<open>Waste risk\<close>

text \<open>
  \<^verbatim>\<open>
  waste_risk = False
  if optimization.perish_date:
      perish_datetime = datetime.strptime(optimization.perish_date, "%Y-%m-%d").date()
      days_to_perish = (perish_datetime - datetime.now().date()).days
      if days_to_perish > 0:
          consumption_until_perish = sum(predictions[:days_to_perish])
          waste_risk = consumption_until_perish < current_stock
  \<close>
  An empty string is falsy in Python, as \<^verbatim>\<open>None\<close> is. \<open>strptime\<close> is the parser of the
  standard library: \<^term>\<open>None\<close> stands for its \<^verbatim>\<open>ValueError\<close>.
\<close>

definition calc_waste_risk ::
  "(string \<Rightarrow> int option) \<Rightarrow> int \<Rightarrow> string option \<Rightarrow> real \<Rightarrow> real list \<Rightarrow> py_exception + bool" where
  "calc_waste_risk strptime today perish stock predictions =
     (case perish of
        None \<Rightarrow> Inr False
      | Some s \<Rightarrow>
          if s = [] then Inr False
          else (case strptime s of
                  None \<Rightarrow> Inl ValueError
                | Some perish_datetime \<Rightarrow>
                    let days_to_perish = perish_datetime - today
                    in if days_to_perish > 0
                       then Inr (sum_list (take (nat days_to_perish) predictions) < stock)
                       else Inr False))"

subsection \<open>The action table\<close>

text \<open>
  \<^verbatim>\<open>
  def _generate_action_suggestion(days_until_runout, waste_risk, current_stock,
                                  avg_daily_consumption, safety_buffer) -> str:
      if waste_risk:
          return "Run a special - high waste risk detected before expiry"
      if days_until_runout is None:
          return "Stock appears sufficient - monitor regularly"
      if days_until_runout <= safety_buffer:
          return "Reorder now - critical stock level"
      elif days_until_runout <= safety_buffer + 3:
          return "Reorder soon - approaching reorder point"
      elif days_until_runout >= 30:
          return "Increase safety buffer - excess inventory detected"
      else:
          return "Monitor closely - stock levels normal"
  \<close>
\<close>

definition generate_action_suggestion ::
  "int option \<Rightarrow> bool \<Rightarrow> real \<Rightarrow> real \<Rightarrow> int \<Rightarrow> string" where
  "generate_action_suggestion days waste stock avg_daily safety_buffer =
     (if waste then ''Run a special - high waste risk detected before expiry''
      else (case days of
              None \<Rightarrow> ''Stock appears sufficient - monitor regularly''
            | Some d \<Rightarrow>
                if d \<le> safety_buffer then ''Reorder now - critical stock level''
                else if d \<le> safety_buffer + 3 then ''Reorder soon - approaching reorder point''
                else if d \<ge> 30 then ''Increase safety buffer - excess inventory detected''
                else ''Monitor closely - stock levels normal''))"

text \<open>
  The priority table in the words of the specification: an ordered list of rules, each a
  condition on (waste risk, days until runout, safety buffer) with its action; the first
  rule whose condition holds gives the action, and the last action is the default.
\<close>

definition action_table :: "bool \<Rightarrow> int option \<Rightarrow> int \<Rightarrow> (bool \<times> string) list" where
  "action_table waste days safety_buffer =
     [(waste, ''Run a special - high waste risk detected before expiry''),
      (days = None, ''Stock appears sufficient - monitor regularly''),
      (case days of None \<Rightarrow> False | Some d \<Rightarrow> d \<le> safety_buffer,
         ''Reorder now - critical stock level''),
      (case days of None \<Rightarrow> False | Some d \<Rightarrow> d \<le> safety_buffer + 3,
         ''Reorder soon - approaching reorder point''),
      (case days of None \<Rightarrow> False | Some d \<Rightarrow> d \<ge> 30,
         ''Increase safety buffer - excess inventory detected'')]"

fun first_match :: "(bool \<times> string) list \<Rightarrow> string \<Rightarrow> string" where
  "first_match [] otherwise = otherwise"
| "first_match ((cond, action) # rules) otherwise =
     (if cond then action else first_match rules otherwise)"

subsection \<open>Stock coverage\<close>

text \<open>
  \<^verbatim>\<open>
  "stock_coverage_days": int(current_stock / np.mean(predictions))
                         if np.mean(predictions) > 0 else 999
  \<close>
  HOL's division is total (\<open>x / 0 = 0\<close>), so a division is written with its check: a zero
  divisor is the error \<^term>\<open>ZeroDivisionError\<close>. \<open>np_mean\<close> divides the sum by the
  number of elements; \<open>py_int\<close> truncates towards zero.
\<close>

definition py_truediv :: "real \<Rightarrow> real \<Rightarrow> py_exception + real" where
  "py_truediv a b = (if b = 0 then Inl ZeroDivisionError else Inr (a / b))"

definition np_mean :: "real list \<Rightarrow> py_exception + real" where
  "np_mean xs = py_truediv (sum_list xs) (real (length xs))"

definition py_int :: "real \<Rightarrow> int" where
  "py_int x = (if x \<ge> 0 then \<lfloor>x\<rfloor> else \<lceil>x\<rceil>)"

definition calc_stock_coverage_days :: "real \<Rightarrow> real list \<Rightarrow> py_exception + int" where
  "calc_stock_coverage_days stock predictions =
     (case np_mean predictions of
        Inl e \<Rightarrow> Inl e
      | Inr m \<Rightarrow>
          if m > 0
          then (case py_truediv stock m of Inl e \<Rightarrow> Inl e | Inr q \<Rightarrow> Inr (py_int q))
          else Inr 999)"

subsection \<open>The optimization endpoint\<close>

text \<open>
  \<open>optimization_analysis\<close> is the body of \<^verbatim>\<open>get_optimization_analytics\<close> from the line
  that collects the predicted values of the prediction response up to the response it
  returns. \<^verbatim>\<open>np.mean(predictions)\<close> is evaluated for the action, for the average and for
  the coverage; each evaluation is a case of the sum.
\<close>

definition optimization_analysis ::
  "(string \<Rightarrow> int option) \<Rightarrow> int \<Rightarrow> string \<Rightarrow> OptimizationRequest \<Rightarrow>
   PredictionDataPoint list \<Rightarrow> py_exception + OptimizationResponse" where
  "optimization_analysis strptime today sku optimization response_predictions =
     (let predictions = List.map_filter predicted response_predictions
      in if predictions = [] then Inl (HTTPException 404 ''No predictions available'')
         else
           let stock = current_stock optimization;
               rd = calc_runout_date today stock predictions;
               total_predicted_consumption = sum_list predictions
           in (case calc_waste_risk strptime today (perish_date optimization) stock predictions of
                 Inl e \<Rightarrow> Inl e
               | Inr wr \<Rightarrow>
                   let days = calc_days_until_runout today rd
                   in (case np_mean predictions of
                         Inl e \<Rightarrow> Inl e
                       | Inr avg \<Rightarrow>
                           let action = generate_action_suggestion days wr stock avg
                                          (safety_buffer_days optimization)
                           in (case calc_stock_coverage_days stock predictions of
                                 Inl e \<Rightarrow> Inl e
                               | Inr coverage \<Rightarrow>
                                   Inr \<lparr>sku_id = sku, runout_date = rd, waste_risk = wr,
                                        suggested_action = action,
                                        details = \<lparr>details_current_stock = stock,
                                          predicted_30_day_consumption = total_predicted_consumption,
                                          avg_daily_consumption = avg,
                                          days_until_runout = days,
                                          stock_coverage_days = coverage,
                                          details_perish_date = perish_date optimization,
                                          details_safety_buffer_days =
                                            safety_buffer_days optimization\<rparr>\<rparr>))))"

text \<open>
  The endpoint of \<^verbatim>\<open>ml/archive/ml_endpoints_simple.py\<close> has the same body, line for line, with
  the request fields as parameters of the handler.

  The endpoint itself: the guard on the loaded predictor stands before the \<^verbatim>\<open>try\<close>; inside
  it the endpoint calls \<^verbatim>\<open>predict_inventory\<close> with a horizon of 30 days, and every
  exception, an \<^verbatim>\<open>HTTPException\<close> included, is caught by \<^verbatim>\<open>except Exception\<close> and raised
  again with status 500. \<open>str_exc\<close> is Python's \<^verbatim>\<open>str\<close> on an exception.
\<close>

definition get_optimization_analytics ::
  "(py_exception \<Rightarrow> string) \<Rightarrow> (string \<Rightarrow> int option) \<Rightarrow> int \<Rightarrow> bool \<Rightarrow>
   (string \<Rightarrow> int \<Rightarrow> py_exception + PredictionDataPoint list) \<Rightarrow>
   string \<Rightarrow> OptimizationRequest \<Rightarrow> py_exception + OptimizationResponse" where
  "get_optimization_analytics str_exc strptime today ensemble_predictor predict_inventory
     sku optimization =
     (if \<not> ensemble_predictor then Inl (HTTPException 503 ''Models not loaded'')
      else (case (case predict_inventory sku 30 of
                    Inl e \<Rightarrow> Inl e
                  | Inr response_predictions \<Rightarrow>
                      optimization_analysis strptime today sku optimization response_predictions) of
              Inl e \<Rightarrow> Inl (HTTPException 500 (''Optimization analysis failed: '' @ str_exc e))
            | Inr r \<Rightarrow> Inr r))"

text \<open>
  The forecast point at index \<open>i\<close> of the response is dated \<open>today + i + 1\<close>
  (\<^verbatim>\<open>base_date + timedelta(days=i+1)\<close> in \<^verbatim>\<open>predict_inventory\<close>); \<open>dated d\<close> pairs a
  forecast sequence with consecutive dates from \<open>d\<close> on.
\<close>

fun dated :: "int \<Rightarrow> real list \<Rightarrow> (int \<times> real) list" where
  "dated d [] = []"
| "dated d (p # ps) = (d, p) # dated (d + 1) ps"

definition forecast_by_date :: "int \<Rightarrow> real list \<Rightarrow> (int \<times> real) list" where
  "forecast_by_date today predictions = dated (today + 1) predictions"

text \<open>
  The forecast consumption on the days strictly before a date, as the specification words
  the waste-risk sum, and on the days up to and including that date.
\<close>

definition consumption_before :: "int \<Rightarrow> int \<Rightarrow> real list \<Rightarrow> real" where
  "consumption_before today d predictions =
     sum_list (map snd (filter (\<lambda>(d', p). d' < d) (forecast_by_date today predictions)))"

definition consumption_through :: "int \<Rightarrow> int \<Rightarrow> real list \<Rightarrow> real" where
  "consumption_through today d predictions =
     sum_list (map snd (filter (\<lambda>(d', p). d' \<le> d) (forecast_by_date today predictions)))"

section \<open>Forecast rollout, stacked-ensemble variant (\<^verbatim>\<open>ml/archive/ml_endpoints.py\<close>)\<close>

text \<open>
  \<^verbatim>\<open>
  forecast = []
  current_pred = final_pred[0] if len(final_pred) > 0 else 0
  for i in range(forecast_days):
      # Simple linear decay for multi-step forecasting
      decay_factor = 1.0 - (i * 0.02)  # 2% decay per day
      forecast.append(max(0, current_pred * decay_factor))
  return np.array(forecast)
  \<close>
  \<open>final_pred\<close> is the output of the meta-model on the two expert predictions, a
  parameter here. \<^verbatim>\<open>range(n)\<close> is empty for \<open>n \<le> 0\<close>, as \<^term>\<open>[0..<nat n]\<close> is.
\<close>

definition predict_with_ensemble :: "real list \<Rightarrow> int \<Rightarrow> real list" where
  "predict_with_ensemble final_pred forecast_days =
     (let current_pred = (if length final_pred > 0 then final_pred ! 0 else 0)
      in map (\<lambda>i. let decay_factor = 1.0 - (real i * 0.02)
                   in max 0 (current_pred * decay_factor))
             [0..<nat forecast_days])"

text \<open>
  \<^verbatim>\<open>
  predictions = np.expm1(predictions)
  predictions = np.maximum(predictions, 0)  # Ensure non-negative
  prediction_data = []
  base_date = datetime.now().date()
  for i, pred_value in enumerate(predictions):
      prediction_date = base_date + timedelta(days=i+1)
      prediction_data.append(PredictionDataPoint(
          date=prediction_date.strftime("%Y-%m-%d"),
          predicted=float(pred_value),
          actual=None,
          confidence_low=float(pred_value * 0.85),
          confidence_high=float(pred_value * 1.15)))
  \<close>
\<close>

definition np_expm1 :: "real \<Rightarrow> real" where
  "np_expm1 x = exp x - 1"

fun prediction_points :: "int \<Rightarrow> nat \<Rightarrow> real list \<Rightarrow> PredictionDataPoint list" where
  "prediction_points base_date i [] = []"
| "prediction_points base_date i (pred_value # rest) =
     \<lparr>date = base_date + int (i + 1), actual = None, predicted = Some pred_value,
      confidence_low = Some (pred_value * 0.85),
      confidence_high = Some (pred_value * 1.15)\<rparr>
     # prediction_points base_date (i + 1) rest"

definition ensemble_rollout :: "real list \<Rightarrow> int \<Rightarrow> int \<Rightarrow> PredictionDataPoint list" where
  "ensemble_rollout final_pred base_date lookahead_days =
     (let predictions = predict_with_ensemble final_pred lookahead_days;
          predictions = map np_expm1 predictions;
          predictions = map (\<lambda>p. max p 0) predictions
      in prediction_points base_date 0 predictions)"

text \<open>
  Geometric decay by 2% per day, as the specification words the decay of the ensemble's
  estimate: day \<open>i\<close> of the horizon is the estimate times \<open>0.98 ^ i\<close>, clamped at zero.
\<close>

definition geometric_decay_forecast :: "real \<Rightarrow> nat \<Rightarrow> real" where
  "geometric_decay_forecast estimate i = max 0 (estimate * 0.98 ^ i)"

section \<open>Feature builder and single-model rollout (\<^verbatim>\<open>ml/ml_simple.py\<close>)\<close>

text \<open>
  A row of the history frame. After \<^verbatim>\<open>pd.to_datetime\<close> the date is a pandas timestamp,
  read through its attributes: the ordinal orders the rows, \<^verbatim>\<open>dayofweek\<close>, \<^verbatim>\<open>month\<close> and
  \<^verbatim>\<open>day\<close> give the calendar columns. Every other column may hold a null.
\<close>

record Timestamp =
  toordinal :: int
  dayofweek :: int
  month :: int
  day :: int

record UsageRecord =
  usage_date :: Timestamp
  covers :: "real option"
  seasonality_factor :: "real option"
  inventory_start :: "real option"
  qty_used :: "real option"
  on_order_qty :: "real option"
  avg_daily_usage_7d :: "real option"
  avg_daily_usage_28d :: "real option"
  shelf_life_days :: "real option"
  unit_cost :: "real option"
  is_holiday :: "real option"
  lead_time_days :: "real option"

text \<open>A row of the feature frame: its columns in order, each with its number.\<close>

type_synonym FeatureRow = "(string \<times> real) list"

definition fillna :: "real \<Rightarrow> real option \<Rightarrow> real" where
  "fillna default_val v = (case v of None \<Rightarrow> default_val | Some x \<Rightarrow> x)"

text \<open>
  \<^verbatim>\<open>Series.shift(n)\<close> moves a column down by \<open>n\<close> rows and fills the top with nulls;
  \<^verbatim>\<open>Series.rolling(w).mean()\<close> is the mean of the last \<open>w\<close> rows, null while fewer than
  \<open>w\<close> rows exist or while one of them is null.
\<close>

definition shift :: "nat \<Rightarrow> real option list \<Rightarrow> real option list" where
  "shift n xs = replicate (min n (length xs)) None @ take (length xs - n) xs"

definition rolling_mean :: "nat \<Rightarrow> real option list \<Rightarrow> real option list" where
  "rolling_mean w xs =
     map (\<lambda>i. if i + 1 < w then None
              else let window = take w (drop (i + 1 - w) xs)
                   in if None \<in> set window then None
                      else Some (sum_list (map the window) / real w))
         [0..<length xs]"

text \<open>
  \<^verbatim>\<open>
  features = pd.DataFrame({
      'covers': data['covers'].fillna(250),
      'seasonality_factor': data['seasonality_factor'].fillna(1.0),
      'inventory_start': data['inventory_start'].fillna(0),
      'on_order_qty': data['on_order_qty'].fillna(0),
      'avg_daily_usage_7d': data['avg_daily_usage_7d'].fillna(0),
      'avg_daily_usage_28d': data['avg_daily_usage_28d'].fillna(0),
      'shelf_life_days': data['shelf_life_days'].fillna(30),
      'unit_cost': data['unit_cost'].fillna(1.0),
      'is_holiday': data['is_holiday'].fillna(0),
      'lead_time_days': data['lead_time_days'].fillna(2),
      'day_of_week': data['date'].dt.dayofweek,
      'month': data['date'].dt.month,
      'day_of_month': data['date'].dt.day,
      'is_weekend': (data['date'].dt.dayofweek >= 5).astype(int)
  })
  features['qty_used_lag_1'] = data['qty_used'].shift(1).fillna(0)
  features['qty_used_lag_7'] = data['qty_used'].shift(7).fillna(0)
  features['qty_used_lag_14'] = data['qty_used'].shift(14).fillna(0)
  features['qty_used_roll_3d'] = data['qty_used'].rolling(3).mean().fillna(0)
  features['qty_used_roll_7d'] = data['qty_used'].rolling(7).mean().fillna(0)
  \<close>
  \<open>prepare_features\<close> takes the frame already sorted by date and builds one feature row
  per row of it.
\<close>

definition prepare_features :: "UsageRecord list \<Rightarrow> FeatureRow list" where
  "prepare_features data =
     (let qty = map qty_used data;
          lag_1 = shift 1 qty; lag_7 = shift 7 qty; lag_14 = shift 14 qty;
          roll_3d = rolling_mean 3 qty; roll_7d = rolling_mean 7 qty
      in map (\<lambda>i. let r = data ! i
                   in [(''covers'', fillna 250 (covers r)),
                       (''seasonality_factor'', fillna 1.0 (seasonality_factor r)),
                       (''inventory_start'', fillna 0 (inventory_start r)),
                       (''on_order_qty'', fillna 0 (on_order_qty r)),
                       (''avg_daily_usage_7d'', fillna 0 (avg_daily_usage_7d r)),
                       (''avg_daily_usage_28d'', fillna 0 (avg_daily_usage_28d r)),
                       (''shelf_life_days'', fillna 30 (shelf_life_days r)),
                       (''unit_cost'', fillna 1.0 (unit_cost r)),
                       (''is_holiday'', fillna 0 (is_holiday r)),
                       (''lead_time_days'', fillna 2 (lead_time_days r)),
                       (''day_of_week'', real_of_int (dayofweek (usage_date r))),
                       (''month'', real_of_int (month (usage_date r))),
                       (''day_of_month'', real_of_int (day (usage_date r))),
                       (''is_weekend'', if dayofweek (usage_date r) \<ge> 5 then 1 else 0),
                       (''qty_used_lag_1'', fillna 0 (lag_1 ! i)),
                       (''qty_used_lag_7'', fillna 0 (lag_7 ! i)),
                       (''qty_used_lag_14'', fillna 0 (lag_14 ! i)),
                       (''qty_used_roll_3d'', fillna 0 (roll_3d ! i)),
                       (''qty_used_roll_7d'', fillna 0 (roll_7d ! i))])
             [0..<length data])"

text \<open>
  The feature default table of the specification, and the usage records whose optional
  columns of that table are all null.
\<close>

definition feature_default_table :: "(string \<times> real) list" where
  "feature_default_table =
     [(''covers'', 250), (''seasonality_factor'', 1.0), (''inventory_start'', 0),
      (''on_order_qty'', 0), (''avg_daily_usage_7d'', 0), (''avg_daily_usage_28d'', 0),
      (''shelf_life_days'', 30), (''unit_cost'', 1.0), (''is_holiday'', 0),
      (''lead_time_days'', 2)]"

definition all_optional_null :: "UsageRecord \<Rightarrow> bool" where
  "all_optional_null r =
     (covers r = None \<and> seasonality_factor r = None \<and> inventory_start r = None \<and>
      on_order_qty r = None \<and> avg_daily_usage_7d r = None \<and> avg_daily_usage_28d r = None \<and>
      shelf_life_days r = None \<and> unit_cost r = None \<and> is_holiday r = None \<and>
      lead_time_days r = None)"

subsection \<open>The rollout loop\<close>

text \<open>
  \<^verbatim>\<open>
  for i in range(request.lookahead_days):
      prediction_date = base_date + timedelta(days=i+1)
      try:
          pred_value = float(xgboost_model.predict(latest_features)[0])
          pred_value = max(0, pred_value)  # Ensure non-negative
      except Exception as e:
          logger.error(f"Prediction error: {e}")
          pred_value = float(np.mean(data['qty_used'].fillna(0).tail(7)))  # Fallback to average
      predictions.append(PredictionDataPoint(
          date=prediction_date.strftime("%Y-%m-%d"),
          predicted=pred_value))
  \<close>
  The predictor is a function from the latest feature row to a number or an exception.
  The mean of an empty sequence is NaN in numpy; \<open>np_mean\<close> reports it as an error, so
  that nothing rests on the value HOL gives to \<open>0 / 0\<close>. The point class of this file
  has no confidence fields: they stay \<^term>\<open>None\<close>.
\<close>

definition tail :: "nat \<Rightarrow> 'a list \<Rightarrow> 'a list" where
  "tail n xs = drop (length xs - n) xs"

definition fallback_average :: "UsageRecord list \<Rightarrow> py_exception + real" where
  "fallback_average data = np_mean (tail 7 (map (\<lambda>r. fillna 0 (qty_used r)) data))"

fun rollout_loop ::
  "(FeatureRow \<Rightarrow> py_exception + real) \<Rightarrow> FeatureRow \<Rightarrow> UsageRecord list \<Rightarrow> int \<Rightarrow>
   nat list \<Rightarrow> py_exception + PredictionDataPoint list" where
  "rollout_loop xgboost_model latest_features data base_date [] = Inr []"
| "rollout_loop xgboost_model latest_features data base_date (i # rest) =
     (case (case xgboost_model latest_features of
              Inr pred_value \<Rightarrow> Inr (max 0 pred_value)
            | Inl e \<Rightarrow> fallback_average data) of
        Inl e \<Rightarrow> Inl e
      | Inr pred_value \<Rightarrow>
          (case rollout_loop xgboost_model latest_features data base_date rest of
             Inl e \<Rightarrow> Inl e
           | Inr predictions \<Rightarrow>
               Inr (\<lparr>date = base_date + int (i + 1), actual = None,
                     predicted = Some pred_value,
                     confidence_low = None, confidence_high = None\<rparr> # predictions)))"

definition forecast_rollout ::
  "(FeatureRow \<Rightarrow> py_exception + real) \<Rightarrow> FeatureRow \<Rightarrow> UsageRecord list \<Rightarrow> int \<Rightarrow> int \<Rightarrow>
   py_exception + PredictionDataPoint list" where
  "forecast_rollout xgboost_model latest_features data base_date lookahead_days =
     rollout_loop xgboost_model latest_features data base_date [0..<nat lookahead_days]"

text \<open>
  The points that the rollout loop appends when every prediction call gives the same
  value: one point per day index, dated from the day after the base date.
\<close>

definition constant_points :: "int \<Rightarrow> real \<Rightarrow> nat list \<Rightarrow> PredictionDataPoint list" where
  "constant_points base_date pred_value days =
     map (\<lambda>i. \<lparr>date = base_date + int (i + 1), actual = None, predicted = Some pred_value,
               confidence_low = None, confidence_high = None\<rparr>) days"


subsection \<open>The prediction endpoint\<close>

text \<open>
  \<^verbatim>\<open>
  if not xgboost_model or not db_loader:
      raise HTTPException(status_code=503, detail="Model not available")
  try:
      end_date = datetime.now()
      start_date = end_date - timedelta(days=30)
      historical_data = db_loader.get_sku_history(sku_id=request.sku_id,
                                                  start_date=start_date, end_date=end_date)
      if historical_data.empty:
          raise HTTPException(status_code=404, detail=f"No data found for SKU: {request.sku_id}")
      data = historical_data.copy()
      data['date'] = pd.to_datetime(data['date'])
      data = data.sort_values('date')
      ...
      if len(features) > 0:
          latest_features = features.iloc[-1:].fillna(0)
          ...
          return InventoryPredictionResponse(...)
      else:
          raise HTTPException(status_code=422, detail="Could not prepare features")
  except Exception as e:
      logger.error(f"Prediction error for SKU {request.sku_id}: {e}")
      raise HTTPException(status_code=500, detail=f"Prediction failed: {str(e)}")
  \<close>
  The loaded model and the data source are global handles, \<^term>\<open>None\<close> when they were not
  loaded; the data source is its history query. \<^verbatim>\<open>HTTPException\<close> is a subclass of
  \<^verbatim>\<open>Exception\<close>, so the handler at the end catches the exceptions that the body raises
  itself. \<open>build_response\<close> stands for the lines between the rollout loop and the
  \<^verbatim>\<open>return\<close> (the merge with the last seven rows of history, the sort and the summary),
  which construct and validate the response objects of the web framework. Rows with equal
  dates keep their order in the sort.
\<close>

definition predict_inventory_simple ::
  "(py_exception \<Rightarrow> string) \<Rightarrow> (FeatureRow \<Rightarrow> py_exception + real) option \<Rightarrow>
   (string \<Rightarrow> int \<Rightarrow> int \<Rightarrow> py_exception + UsageRecord list) option \<Rightarrow>
   (UsageRecord list \<Rightarrow> PredictionDataPoint list \<Rightarrow> py_exception + 'r) \<Rightarrow>
   int \<Rightarrow> string \<Rightarrow> int \<Rightarrow> py_exception + 'r" where
  "predict_inventory_simple str_exc xgboost_model db_loader build_response today
     request_sku_id request_lookahead_days =
     (case (xgboost_model, db_loader) of
        (Some model, Some get_sku_history) \<Rightarrow>
          (case (case get_sku_history request_sku_id (today - 30) today of
                   Inl e \<Rightarrow> Inl e
                 | Inr historical_data \<Rightarrow>
                     if historical_data = []
                     then Inl (HTTPException 404 (''No data found for SKU: '' @ request_sku_id))
                     else
                       let data = sort_key (\<lambda>r. toordinal (usage_date r)) historical_data;
                           features = prepare_features data
                       in if length features > 0
                          then (case forecast_rollout model (last features) data today
                                       request_lookahead_days of
                                  Inl e \<Rightarrow> Inl e
                                | Inr predictions \<Rightarrow> build_response data predictions)
                          else Inl (HTTPException 422 ''Could not prepare features'')) of
             Inl e \<Rightarrow> Inl (HTTPException 500 (''Prediction failed: '' @ str_exc e))
           | Inr r \<Rightarrow> Inr r)
      | _ \<Rightarrow> Inl (HTTPException 503 ''Model not available''))"

section \<open>Numeric defaults of the data loader (\<^verbatim>\<open>ml/src/data_processing/database_loader.py\<close>)\<close>

text \<open>
  \<^verbatim>\<open>
  if 'is_holiday' not in df.columns:
      df['is_holiday'] = 0  # Default to no holidays for now
  if 'lead_time_days' not in df.columns:
      df['lead_time_days'] = 2  # Default 2 day lead time
  column_mapping = {
      'units_sold_items_using': 'units_sold_items_using_ing',
      'revenue_items_using': 'revenue_items_using_ing'
  }
  df = df.rename(columns=column_mapping)
  numeric_defaults = { 'covers': 250, ... }
  for col, default_val in numeric_defaults.items():
      if col not in df.columns:
          df[col] = default_val
      else:
          df[col] = df[col].fillna(default_val)
  \<close>
  A row of the frame maps a column name to its cell: \<^term>\<open>None\<close> when the frame has no
  such column, \<^term>\<open>Some None\<close> for a null cell. The text columns of the frame
  (names, categories) take no part in these lines and are left out.
\<close>

type_synonym frame_row = "string \<rightharpoonup> real option"

definition numeric_defaults :: "(string \<times> real) list" where
  "numeric_defaults =
     [(''covers'', 250),
      (''seasonality_factor'', 1.0),
      (''inventory_start'', 0),
      (''qty_used'', 0),
      (''inventory_end'', 0),
      (''on_order_qty'', 0),
      (''avg_daily_usage_7d'', 0),
      (''avg_daily_usage_28d'', 0),
      (''avg_daily_usage_56d'', 0),
      (''units_sold_items_using_ing'', 0),
      (''revenue_items_using_ing'', 0),
      (''lead_time_days'', 2),
      (''is_holiday'', 0),
      (''shelf_life_days'', 30),
      (''unit_cost'', 1.0)]"

definition add_column_if_missing :: "string \<Rightarrow> real \<Rightarrow> frame_row \<Rightarrow> frame_row" where
  "add_column_if_missing col v row = (case row col of None \<Rightarrow> row(col \<mapsto> Some v) | Some _ \<Rightarrow> row)"

definition rename_column :: "string \<Rightarrow> string \<Rightarrow> frame_row \<Rightarrow> frame_row" where
  "rename_column old new row =
     (case row old of None \<Rightarrow> row | Some v \<Rightarrow> (row(old := None))(new \<mapsto> v))"

definition fill_default :: "frame_row \<Rightarrow> string \<times> real \<Rightarrow> frame_row" where
  "fill_default row cd =
     (case cd of (col, default_val) \<Rightarrow>
        (case row col of
           None \<Rightarrow> row(col \<mapsto> Some default_val)
         | Some v \<Rightarrow> row(col \<mapsto> Some (fillna default_val v))))"

definition add_derived_features :: "frame_row \<Rightarrow> frame_row" where
  "add_derived_features row =
     (let row = add_column_if_missing ''is_holiday'' 0 row;
          row = add_column_if_missing ''lead_time_days'' 2 row;
          row = rename_column ''units_sold_items_using'' ''units_sold_items_using_ing'' row;
          row = rename_column ''revenue_items_using'' ''revenue_items_using_ing'' row
      in foldl fill_default row numeric_defaults)"

section \<open>An example history row\<close>

text \<open>
  A history row of Tuesday 2026-11-03 whose optional columns are null, with a given
  quantity used; the concrete inputs of the examples below are built from it.
\<close>

definition example_record :: "real option \<Rightarrow> UsageRecord" where
  "example_record q =
     \<lparr>usage_date = \<lparr>toordinal = 739923, dayofweek = 1, month = 11, day = 3\<rparr>,
      covers = None, seasonality_factor = None, inventory_start = None, qty_used = q,
      on_order_qty = None, avg_daily_usage_7d = None, avg_daily_usage_28d = None,
      shelf_life_days = None, unit_cost = None, is_holiday = None, lead_time_days = None\<rparr>"

text \<open>
  A date parser that knows three dates around Wednesday 2026-11-04 (ordinal 739924), a
  predictor that raises on every call, and a predictor that returns 10 on every call.
\<close>

definition example_strptime :: "string \<Rightarrow> int option" where
  "example_strptime s =
     (if s = ''2026-11-04'' then Some 739924
      else if s = ''2026-11-05'' then Some 739925
      else if s = ''2026-11-14'' then Some 739934
      else None)"

definition failing_predictor :: "FeatureRow \<Rightarrow> py_exception + real" where
  "failing_predictor row = Inl (PredictorError ''feature shape mismatch'')"

definition steady_predictor :: "FeatureRow \<Rightarrow> py_exception + real" where
  "steady_predictor row = Inr 10"

section \<open>Properties of the optimization advisor\<close>

subsection \<open>The runout walk finds the first crossing\<close>

text \<open>
  With \<open>c\<close> consumed before the walk starts at index \<open>i\<close>, the walk stops at the first
  position whose cumulative consumption reaches the stock, and only there.
\<close>

lemma runout_walk_Some:
  "runout_walk s c i xs = Some d \<longleftrightarrow>
     (\<exists>k<length xs. d = i + k + 1 \<and> s \<le> c + sum_list (take (k + 1) xs) \<and>
        (\<forall>j<k. c + sum_list (take (j + 1) xs) < s))"
proof (induction xs arbitrary: c i)
  case Nil
  then show ?case by simp
next
  case (Cons x xs)
  show ?case
  proof (cases "s \<le> c + x")
    case True
    have "(\<exists>k<length (x # xs). d = i + k + 1 \<and> s \<le> c + sum_list (take (k + 1) (x # xs)) \<and>
        (\<forall>j<k. c + sum_list (take (j + 1) (x # xs)) < s)) \<longleftrightarrow> d = i + 1"
    proof
      assume "\<exists>k<length (x # xs). d = i + k + 1 \<and> s \<le> c + sum_list (take (k + 1) (x # xs)) \<and>
        (\<forall>j<k. c + sum_list (take (j + 1) (x # xs)) < s)"
      then obtain k where k: "d = i + k + 1" "\<forall>j<k. c + sum_list (take (j + 1) (x # xs)) < s"
        by blast
      have "k = 0"
      proof (rule ccontr)
        assume "k \<noteq> 0"
        then have "c + sum_list (take (0 + 1) (x # xs)) < s" using k(2) by blast
        then show False using True by simp
      qed
      then show "d = i + 1" using k(1) by simp
    next
      assume "d = i + 1"
      then show "\<exists>k<length (x # xs). d = i + k + 1 \<and> s \<le> c + sum_list (take (k + 1) (x # xs)) \<and>
        (\<forall>j<k. c + sum_list (take (j + 1) (x # xs)) < s)"
        using True by (intro exI[of _ 0]) simp
    qed
    then show ?thesis using True by auto
  next
    case False
    have "(\<exists>k<length (x # xs). d = i + k + 1 \<and> s \<le> c + sum_list (take (k + 1) (x # xs)) \<and>
        (\<forall>j<k. c + sum_list (take (j + 1) (x # xs)) < s)) \<longleftrightarrow>
      (\<exists>k<length xs. d = (i + 1) + k + 1 \<and> s \<le> (c + x) + sum_list (take (k + 1) xs) \<and>
        (\<forall>j<k. (c + x) + sum_list (take (j + 1) xs) < s))" (is "?L \<longleftrightarrow> ?R")
    proof
      assume ?L
      then obtain k where k: "k < length (x # xs)" "d = i + k + 1"
        "s \<le> c + sum_list (take (k + 1) (x # xs))"
        "\<forall>j<k. c + sum_list (take (j + 1) (x # xs)) < s" by blast
      from k(3) False obtain k' where k': "k = Suc k'" by (cases k) auto
      have "\<forall>j<k'. (c + x) + sum_list (take (j + 1) xs) < s"
      proof (intro allI impI)
        fix j assume "j < k'"
        then have "Suc j < k" using k' by simp
        then have "c + sum_list (take (Suc j + 1) (x # xs)) < s" using k(4) by blast
        then show "(c + x) + sum_list (take (j + 1) xs) < s" by (simp add: add.assoc)
      qed
      then show ?R using k k' by (intro exI[of _ k']) (simp add: add.assoc)
    next
      assume ?R
      then obtain k where k: "k < length xs" "d = (i + 1) + k + 1"
        "s \<le> (c + x) + sum_list (take (k + 1) xs)"
        "\<forall>j<k. (c + x) + sum_list (take (j + 1) xs) < s" by blast
      have "\<forall>j<Suc k. c + sum_list (take (j + 1) (x # xs)) < s"
      proof (intro allI impI)
        fix j assume j: "j < Suc k"
        show "c + sum_list (take (j + 1) (x # xs)) < s"
        proof (cases j)
          case 0
          then show ?thesis using False by simp
        next
          case (Suc j')
          then have "j' < k" using j by simp
          then have "(c + x) + sum_list (take (j' + 1) xs) < s" using k(4) by blast
          then show ?thesis using Suc by (simp add: add.assoc)
        qed
      qed
      then show ?L using k by (intro exI[of _ "Suc k"]) (simp add: add.assoc)
    qed
    then show ?thesis using False Cons.IH[of "c + x" "i + 1"] by (simp add: Let_def)
  qed
qed

lemma runout_walk_None:
  "runout_walk s c i xs = None \<longleftrightarrow> (\<forall>k<length xs. c + sum_list (take (k + 1) xs) < s)"
proof (induction xs arbitrary: c i)
  case Nil
  then show ?case by simp
next
  case (Cons x xs)
  show ?case
  proof (cases "s \<le> c + x")
    case True
    then have "\<not> (\<forall>k<length (x # xs). c + sum_list (take (k + 1) (x # xs)) < s)"
      by (auto intro!: exI[of _ 0])
    then show ?thesis using True by simp
  next
    case False
    have "(\<forall>k<length (x # xs). c + sum_list (take (k + 1) (x # xs)) < s) \<longleftrightarrow>
          (\<forall>k<length xs. (c + x) + sum_list (take (k + 1) xs) < s)" (is "?L \<longleftrightarrow> ?R")
    proof
      assume l: ?L
      show ?R
      proof (intro allI impI)
        fix k assume "k < length xs"
        then have "c + sum_list (take (Suc k + 1) (x # xs)) < s" using l by simp
        then show "(c + x) + sum_list (take (k + 1) xs) < s" by (simp add: add.assoc)
      qed
    next
      assume r: ?R
      show ?L
      proof (intro allI impI)
        fix k assume k: "k < length (x # xs)"
        show "c + sum_list (take (k + 1) (x # xs)) < s"
        proof (cases k)
          case 0
          then show ?thesis using False by simp
        next
          case (Suc k')
          then have "(c + x) + sum_list (take (k' + 1) xs) < s" using r k by simp
          then show ?thesis using Suc by (simp add: add.assoc)
        qed
      qed
    qed
    then show ?thesis using False Cons.IH[of "c + x" "i + 1"] by (simp add: Let_def)
  qed
qed

lemma runout_walk_replicate:
  "5 \<le> n \<Longrightarrow> runout_walk 100 0 0 (replicate n 20) = Some 5"
proof -
  assume "5 \<le> n"
  then obtain m where "n = 5 + m" using le_Suc_ex by blast
  then have "replicate n (20::real) = 20 # 20 # 20 # 20 # 20 # replicate m 20"
    by (simp add: numeral_eq_Suc)
  then show ?thesis by simp
qed

lemma analysis_runout_date:
  "optimization_analysis strptime today sku opt pts = Inr resp \<Longrightarrow>
   runout_date resp = calc_runout_date today (current_stock opt) (List.map_filter predicted pts)"
  by (auto simp: optimization_analysis_def Let_def split: if_splits sum.splits)

text \<open>
  Claim C1. The forecast value at index \<open>k\<close> belongs to the date \<open>today + k + 1\<close>. The
  runout date of the optimization endpoint is the date of the first index at which the
  cumulative sum of the predicted daily consumption reaches or exceeds the current stock;
  it is absent, and this is no error, exactly when no cumulative sum within the horizon
  reaches the stock. For a stock of 100 and a constant forecast of 20 per day over at least
  five days the runout date is the fifth forecast day. The \<open>runout_date\<close> field of every
  response of the endpoint is this date.
\<close>

theorem runout_date_first_crossing:
  "(calc_runout_date today s preds = Some r \<longleftrightarrow>
      (\<exists>k<length preds. r = today + int k + 1 \<and> s \<le> sum_list (take (k + 1) preds) \<and>
         (\<forall>j<k. sum_list (take (j + 1) preds) < s)))
   \<and> (calc_runout_date today s preds = None \<longleftrightarrow>
         (\<forall>k<length preds. sum_list (take (k + 1) preds) < s))
   \<and> (5 \<le> n \<longrightarrow> calc_runout_date today 100 (replicate n 20) = Some (today + 5))
   \<and> (optimization_analysis strptime today sku opt pts = Inr resp \<longrightarrow>
        runout_date resp =
          calc_runout_date today (current_stock opt) (List.map_filter predicted pts))"
proof (intro conjI)
  show "calc_runout_date today s preds = Some r \<longleftrightarrow>
      (\<exists>k<length preds. r = today + int k + 1 \<and> s \<le> sum_list (take (k + 1) preds) \<and>
         (\<forall>j<k. sum_list (take (j + 1) preds) < s))"
  proof -
    have "calc_runout_date today s preds = Some r \<longleftrightarrow>
          (\<exists>d. runout_walk s 0 0 preds = Some d \<and> r = today + int d)"
      by (auto simp: calc_runout_date_def)
    also have "\<dots> \<longleftrightarrow>
          (\<exists>d. (\<exists>k<length preds. d = 0 + k + 1 \<and> s \<le> 0 + sum_list (take (k + 1) preds) \<and>
                 (\<forall>j<k. 0 + sum_list (take (j + 1) preds) < s)) \<and> r = today + int d)"
      by (simp only: runout_walk_Some)
    also have "\<dots> \<longleftrightarrow>
          (\<exists>k<length preds. r = today + int k + 1 \<and> s \<le> sum_list (take (k + 1) preds) \<and>
             (\<forall>j<k. sum_list (take (j + 1) preds) < s))"
      by auto
    finally show ?thesis .
  qed
  show "calc_runout_date today s preds = None \<longleftrightarrow>
         (\<forall>k<length preds. sum_list (take (k + 1) preds) < s)"
    unfolding calc_runout_date_def using runout_walk_None[of s 0 0 preds] by simp
  show "5 \<le> n \<longrightarrow> calc_runout_date today 100 (replicate n 20) = Some (today + 5)"
    unfolding calc_runout_date_def by (simp add: runout_walk_replicate)
  show "optimization_analysis strptime today sku opt pts = Inr resp \<longrightarrow>
        runout_date resp =
          calc_runout_date today (current_stock opt) (List.map_filter predicted pts)"
    using analysis_runout_date by blast
qed

theorem runout_date_first_crossing_witness:
  "(5::nat) \<le> 7 \<and> calc_runout_date 739924 100 (replicate 7 20) = Some 739929
   \<and> (100::real) \<le> sum_list (take 5 (replicate 7 20))
   \<and> sum_list (take 4 (replicate 7 20)) < (100::real)
   \<and> calc_runout_date 739924 100 [20, 20, 20] = None"
  using runout_date_first_crossing[of 739924 100 "replicate 7 20" 739929 7]
  by (simp add: calc_runout_date_def numeral_eq_Suc)

subsection \<open>Monotonicity in the stock\<close>

lemma runout_walk_mono:
  assumes "s1 \<le> s2" "runout_walk s2 c i xs = Some d2"
  shows "\<exists>d1. runout_walk s1 c i xs = Some d1 \<and> d1 \<le> d2"
  using assms(2)
proof (induction xs arbitrary: c i)
  case Nil
  then show ?case by simp
next
  case (Cons x xs)
  show ?case
  proof (cases "s1 \<le> c + x")
    case True
    have "i + 1 \<le> d2"
    proof (cases "s2 \<le> c + x")
      case True
      then show ?thesis using Cons.prems by simp
    next
      case False
      then have "runout_walk s2 (c + x) (i + 1) xs = Some d2" using Cons.prems by simp
      then obtain k where "d2 = (i + 1) + k + 1" unfolding runout_walk_Some by blast
      then show ?thesis by simp
    qed
    then show ?thesis using True by simp
  next
    case False
    then have "\<not> s2 \<le> c + x" using assms(1) by simp
    then have "runout_walk s2 (c + x) (i + 1) xs = Some d2" using Cons.prems by simp
    from Cons.IH[OF this] show ?thesis using False by simp
  qed
qed

text \<open>
  Claim C9. For a fixed forecast sequence and two stock levels \<open>s1 \<le> s2\<close>, the days until
  runout computed for \<open>s2\<close> are absent, or both are present and the days for \<open>s2\<close>
  are at least the days for \<open>s1\<close>: increasing the stock never decreases the days until
  runout. The walk compares cumulative sums with the stock only, so the statement holds for
  every forecast sequence, the non-negative ones of the claim among them.
\<close>

theorem days_until_runout_monotone:
  assumes "s1 \<le> s2"
  shows "calc_days_until_runout today (calc_runout_date today s2 preds) = None \<or>
         (\<exists>d1 d2. calc_days_until_runout today (calc_runout_date today s1 preds) = Some d1 \<and>
                  calc_days_until_runout today (calc_runout_date today s2 preds) = Some d2 \<and>
                  d1 \<le> d2)"
proof (cases "runout_walk s2 0 0 preds")
  case None
  then show ?thesis by (simp add: calc_days_until_runout_def calc_runout_date_def)
next
  case (Some d2)
  from runout_walk_mono[OF assms this] obtain d1
    where "runout_walk s1 0 0 preds = Some d1" "d1 \<le> d2" by blast
  then show ?thesis using Some
    by (simp add: calc_days_until_runout_def calc_runout_date_def)
qed

theorem days_until_runout_monotone_witness:
  "(50::real) \<le> 100
   \<and> calc_days_until_runout 739924 (calc_runout_date 739924 50 (replicate 7 20)) = Some 3
   \<and> calc_days_until_runout 739924 (calc_runout_date 739924 100 (replicate 7 20)) = Some 5
   \<and> calc_days_until_runout 739924 (calc_runout_date 739924 200 (replicate 7 20)) = None"
  using days_until_runout_monotone[of 50 100 739924 "replicate 7 20"]
  by (simp add: calc_days_until_runout_def calc_runout_date_def numeral_eq_Suc)

subsection \<open>The recommended action\<close>

text \<open>
  Claim C2. The recommended action is the first matching rule of the fixed priority table
  over (waste risk, days until runout, safety buffer), with "monitor, normal" when no rule
  matches; the stock and the average consumption that the function also receives do not
  influence it. Two days until runout with a safety buffer of three and no waste risk give
  "Reorder now - critical stock level".
\<close>

theorem action_suggestion_priority_table:
  "generate_action_suggestion days waste stock avg_daily safety_buffer =
     first_match (action_table waste days safety_buffer) ''Monitor closely - stock levels normal''
   \<and> generate_action_suggestion days waste stock avg_daily safety_buffer =
       generate_action_suggestion days waste stock' avg_daily' safety_buffer
   \<and> generate_action_suggestion (Some 2) False stock avg_daily 3 =
       ''Reorder now - critical stock level''"
  by (simp add: generate_action_suggestion_def action_table_def split: option.splits)

subsection \<open>Stock coverage\<close>

lemma np_mean_nonempty:
  "xs \<noteq> [] \<Longrightarrow> np_mean xs = Inr (sum_list xs / real (length xs))"
  by (simp add: np_mean_def py_truediv_def)

lemma stock_coverage_nonempty:
  assumes "preds \<noteq> []"
  shows "calc_stock_coverage_days stock preds =
           Inr (if 0 < sum_list preds / real (length preds)
                then py_int (stock / (sum_list preds / real (length preds))) else 999)"
  using assms by (simp add: calc_stock_coverage_days_def np_mean_nonempty py_truediv_def)

lemma analysis_no_zero_division:
  "optimization_analysis strptime today sku opt pts \<noteq> Inl ZeroDivisionError"
proof (cases "List.map_filter predicted pts = []")
  case True
  then show ?thesis by (simp add: optimization_analysis_def)
next
  case False
  then show ?thesis
    by (auto simp: optimization_analysis_def Let_def np_mean_nonempty stock_coverage_nonempty
          calc_waste_risk_def split: sum.splits option.splits if_splits)
qed

lemma analysis_coverage:
  assumes "optimization_analysis strptime today sku opt pts = Inr resp"
  shows "stock_coverage_days (details resp) =
           (let preds = List.map_filter predicted pts;
                mean = sum_list preds / real (length preds)
            in if 0 < mean then py_int (current_stock opt / mean) else 999)"
proof -
  have ne: "List.map_filter predicted pts \<noteq> []"
    using assms by (auto simp: optimization_analysis_def)
  show ?thesis using assms ne
    by (auto simp: optimization_analysis_def Let_def np_mean_nonempty stock_coverage_nonempty
          split: sum.splits if_splits)
qed

text \<open>
  Claim C10. Building the details of the optimization response never divides by zero. For
  a non-empty forecast sequence, a sequence of zeros included, the stock coverage is
  \<open>int(current_stock / mean)\<close> when the mean daily prediction is strictly positive and 999
  otherwise; an empty sequence leaves the endpoint with status 404 before the details are
  built. No run of the endpoint body ends in \<^term>\<open>ZeroDivisionError\<close>, and the
  \<open>stock_coverage_days\<close> of every response is the value above.
\<close>

theorem stock_coverage_no_division_by_zero:
  "(preds \<noteq> [] \<longrightarrow>
      calc_stock_coverage_days stock preds =
        Inr (if 0 < sum_list preds / real (length preds)
             then py_int (stock / (sum_list preds / real (length preds))) else 999))
   \<and> optimization_analysis strptime today sku opt pts \<noteq> Inl ZeroDivisionError
   \<and> (optimization_analysis strptime today sku opt pts = Inr resp \<longrightarrow>
        stock_coverage_days (details resp) =
          (let ps = List.map_filter predicted pts;
               mean = sum_list ps / real (length ps)
           in if 0 < mean then py_int (current_stock opt / mean) else 999))"
  using stock_coverage_nonempty analysis_no_zero_division analysis_coverage by blast

theorem stock_coverage_no_division_by_zero_witness:
  "[0, 0, 0] \<noteq> ([] :: real list)
   \<and> calc_stock_coverage_days 10 [0, 0, 0] = Inr 999
   \<and> calc_stock_coverage_days 10 [2, 3] = Inr 4
   \<and> calc_stock_coverage_days 10 [4, 4] = Inr 2"
  using stock_coverage_no_division_by_zero[of "[0, 0, 0]" 10]
    stock_coverage_no_division_by_zero[of "[2, 3]" 10]
    stock_coverage_no_division_by_zero[of "[4, 4]" 10]
  by (simp add: py_int_def)

subsection \<open>Waste risk\<close>

lemma dated_through:
  "sum_list (map snd (filter (\<lambda>(d', p). d' \<le> pd) (dated d0 ps))) =
   sum_list (take (nat (pd - d0 + 1)) ps)"
proof (induction ps arbitrary: d0)
  case Nil
  then show ?case by simp
next
  case (Cons p ps)
  show ?case
  proof (cases "d0 \<le> pd")
    case True
    then have "nat (pd - d0 + 1) = Suc (nat (pd - d0))" by simp
    then show ?thesis using True Cons.IH[of "d0 + 1"] by simp
  next
    case False
    then have "nat (pd - d0 + 1) = 0" "nat (pd - (d0 + 1) + 1) = 0" by simp_all
    then show ?thesis using False Cons.IH[of "d0 + 1"] by simp
  qed
qed

lemma consumption_through_take:
  "consumption_through today pd preds = sum_list (take (nat (pd - today)) preds)"
  by (simp add: consumption_through_def forecast_by_date_def dated_through)

text \<open>
  Claim C3, as amended. The code sums the first \<open>days_to_perish\<close> forecast values. The
  forecast value at index \<open>k\<close> is dated \<open>today + k + 1\<close>, so these are the forecast days up
  to and including the perish date, not the days strictly before it. Waste risk is true if
  and only if a perish date is given (a non-empty string that parses), lies strictly in the
  future, and the forecast consumption on the forecast days up to and including the perish
  date is strictly less than the current stock. Waste risk is false whenever the perish
  date is absent or not strictly in the future.
\<close>

theorem waste_risk_through_perish_date:
  "(calc_waste_risk strptime today perish stock preds = Inr True \<longleftrightarrow>
      (\<exists>s pd. perish = Some s \<and> s \<noteq> [] \<and> strptime s = Some pd \<and> today < pd \<and>
         consumption_through today pd preds < stock))
   \<and> (perish = None \<or> perish = Some [] \<longrightarrow>
        calc_waste_risk strptime today perish stock preds = Inr False)
   \<and> (perish = Some s \<and> strptime s = Some pd \<and> pd \<le> today \<longrightarrow>
        calc_waste_risk strptime today perish stock preds = Inr False)
   \<and> (today < pd \<longrightarrow>
        consumption_through today pd preds = sum_list (take (nat (pd - today)) preds))"
proof (intro conjI)
  show "calc_waste_risk strptime today perish stock preds = Inr True \<longleftrightarrow>
      (\<exists>s pd. perish = Some s \<and> s \<noteq> [] \<and> strptime s = Some pd \<and> today < pd \<and>
         consumption_through today pd preds < stock)"
    by (auto simp: calc_waste_risk_def consumption_through_take Let_def
          split: option.splits if_splits)
  show "perish = None \<or> perish = Some [] \<longrightarrow>
        calc_waste_risk strptime today perish stock preds = Inr False"
    by (auto simp: calc_waste_risk_def)
  show "perish = Some s \<and> strptime s = Some pd \<and> pd \<le> today \<longrightarrow>
        calc_waste_risk strptime today perish stock preds = Inr False"
    by (auto simp: calc_waste_risk_def)
  show "today < pd \<longrightarrow>
        consumption_through today pd preds = sum_list (take (nat (pd - today)) preds)"
    by (simp add: consumption_through_take)
qed

theorem waste_risk_through_perish_date_witness:
  "calc_waste_risk example_strptime 739924 (Some ''2026-11-14'') 50 (replicate 30 3) = Inr True
   \<and> example_strptime ''2026-11-14'' = Some 739934
   \<and> (739924::int) < 739934
   \<and> consumption_through 739924 739934 (replicate 30 3) = 30
   \<and> calc_waste_risk example_strptime 739924 None 50 (replicate 30 3) = Inr False
   \<and> calc_waste_risk example_strptime 739924 (Some ''2026-11-04'') 50 (replicate 30 3) =
       Inr False"
  using waste_risk_through_perish_date[of example_strptime 739924 "Some ''2026-11-14''" 50
      "replicate 30 3" "''2026-11-14''" 739934]
    waste_risk_through_perish_date[of example_strptime 739924 None 50 "replicate 30 3"]
    waste_risk_through_perish_date[of example_strptime 739924 "Some ''2026-11-04''" 50
      "replicate 30 3" "''2026-11-04''" 739924]
  by (simp add: consumption_through_take example_strptime_def numeral_eq_Suc)

text \<open>
  The claim as stated fails for a perish date of tomorrow: no forecast day lies strictly
  before it, so the sum of the claim is 0, which is less than a stock of 3, while the code
  sums tomorrow's forecast of 5 and reports no waste risk.
\<close>

theorem waste_risk_strictly_before_counterexample:
  "calc_waste_risk example_strptime 739924 (Some ''2026-11-05'') 3 [5] = Inr False
   \<and> example_strptime ''2026-11-05'' = Some 739925
   \<and> (739924::int) < 739925
   \<and> consumption_before 739924 739925 [5] = 0
   \<and> consumption_before 739924 739925 [5] < 3"
  by (simp add: calc_waste_risk_def consumption_before_def forecast_by_date_def
        example_strptime_def)

section \<open>Properties of the stacked-ensemble rollout\<close>

lemma predict_with_ensemble_length:
  "length (predict_with_ensemble fp H) = nat H"
  by (simp add: predict_with_ensemble_def Let_def)

lemma predict_with_ensemble_nth:
  "i < nat H \<Longrightarrow>
   predict_with_ensemble fp H ! i =
     max 0 ((case fp of [] \<Rightarrow> 0 | e # _ \<Rightarrow> e) * (1 - 0.02 * real i))"
  by (cases fp) (simp_all add: predict_with_ensemble_def Let_def mult.commute)

text \<open>
  Claim C4, as amended. The forecast of the ensemble has one value per day of the horizon,
  and the value for day \<open>i\<close> is the point estimate of the meta-model times the linear factor
  \<open>1 - 0.02 * i\<close>, clamped at zero: the decay takes two percentage points of the estimate
  per day and is not geometric. The estimate is the first output of the meta-model, 0 when
  there is none.
\<close>

theorem ensemble_linear_decay:
  "length (predict_with_ensemble final_pred H) = nat H
   \<and> (\<forall>i < nat H. predict_with_ensemble final_pred H ! i =
         max 0 ((case final_pred of [] \<Rightarrow> 0 | estimate # _ \<Rightarrow> estimate) * (1 - 0.02 * real i)))"
  using predict_with_ensemble_length predict_with_ensemble_nth by blast

theorem ensemble_linear_decay_witness:
  "length (predict_with_ensemble [1] 3) = 3
   \<and> (2::nat) < nat 3
   \<and> predict_with_ensemble [1] 3 ! 2 = 24 / 25
   \<and> predict_with_ensemble [1] 60 ! 55 = 0"
  using ensemble_linear_decay[of "[1]" 3] ensemble_linear_decay[of "[1]" 60]
  by simp

text \<open>
  The claim as stated fails on day 2 for an estimate of 1: the code gives 0.96, the
  geometric decay 0.9604.
\<close>

theorem ensemble_geometric_decay_counterexample:
  "predict_with_ensemble [1] 3 ! 2 = 24 / 25
   \<and> geometric_decay_forecast 1 2 = 2401 / 2500
   \<and> predict_with_ensemble [1] 3 ! 2 \<noteq> geometric_decay_forecast 1 2"
  by (simp add: predict_with_ensemble_def geometric_decay_forecast_def Let_def numeral_eq_Suc power2_eq_square)

lemma prediction_points_length:
  "length (prediction_points base i ps) = length ps"
  by (induction ps arbitrary: i) simp_all

lemma prediction_points_nth:
  "k < length ps \<Longrightarrow>
   prediction_points base i ps ! k =
     \<lparr>date = base + int (i + k + 1), actual = None, predicted = Some (ps ! k),
      confidence_low = Some (ps ! k * 0.85), confidence_high = Some (ps ! k * 1.15)\<rparr>"
proof (induction ps arbitrary: i k)
  case Nil
  then show ?case by simp
next
  case (Cons p ps)
  show ?case
  proof (cases k)
    case 0
    then show ?thesis by simp
  next
    case (Suc k')
    then have "k' < length ps" using Cons.prems by simp
    from Cons.IH[OF this, of "i + 1"] show ?thesis using Suc by simp
  qed
qed

lemma ensemble_rollout_length:
  "length (ensemble_rollout fp base H) = nat H"
  by (simp add: ensemble_rollout_def Let_def prediction_points_length predict_with_ensemble_def)

lemma ensemble_rollout_nth:
  assumes "k < nat H"
  shows "\<exists>p. 0 \<le> p \<and> ensemble_rollout fp base H ! k =
           \<lparr>date = base + int k + 1, actual = None, predicted = Some p,
            confidence_low = Some (0.85 * p), confidence_high = Some (1.15 * p)\<rparr>"
proof -
  define ps where "ps = map (\<lambda>p. max p 0) (map np_expm1 (predict_with_ensemble fp H))"
  have len: "length ps = nat H" by (simp add: ps_def predict_with_ensemble_def Let_def)
  have nonneg: "0 \<le> ps ! k" using assms len by (simp add: ps_def predict_with_ensemble_def Let_def)
  have "ensemble_rollout fp base H ! k = prediction_points base 0 ps ! k"
    by (simp add: ensemble_rollout_def Let_def ps_def)
  also have "\<dots> = \<lparr>date = base + int k + 1, actual = None, predicted = Some (ps ! k),
      confidence_low = Some (0.85 * (ps ! k)), confidence_high = Some (1.15 * (ps ! k))\<rparr>"
    using assms len by (simp add: prediction_points_nth mult.commute)
  finally show ?thesis using nonneg by blast
qed

section \<open>Properties of the single-model endpoint\<close>

text \<open>
  Claim C5. The endpoint raises the not-found exception for an empty history inside its own
  \<^verbatim>\<open>try\<close> block, and the \<^verbatim>\<open>except Exception\<close> handler of that block catches it: the caller
  receives status 500, with the text of the caught exception after "Prediction failed: ",
  and never status 404.
\<close>

theorem empty_history_answers_500:
  "predict_inventory_simple str_exc (Some model) (Some (\<lambda>sku start_date end_date. Inr []))
     build_response today sku lookahead_days =
   Inl (HTTPException 500
         (''Prediction failed: '' @ str_exc (HTTPException 404 (''No data found for SKU: '' @ sku))))"
  by (simp add: predict_inventory_simple_def)

lemma rollout_loop_failure:
  assumes "xgboost_model latest = Inl e" and "fallback_average data = Inr avg"
  shows "rollout_loop xgboost_model latest data base_date days =
           Inr (constant_points base_date avg days)"
  using assms by (induction days) (simp_all add: constant_points_def)

lemma rollout_loop_success:
  assumes "xgboost_model latest = Inr v"
  shows "rollout_loop xgboost_model latest data base_date days =
           Inr (constant_points base_date (max 0 v) days)"
  using assms by (induction days) (simp_all add: constant_points_def)

lemma fallback_average_nonempty:
  assumes "data \<noteq> []"
  shows "fallback_average data =
           Inr (sum_list (tail 7 (map (\<lambda>r. fillna 0 (qty_used r)) data)) /
                real (length (tail 7 (map (\<lambda>r. fillna 0 (qty_used r)) data))))"
proof -
  have "tail 7 (map (\<lambda>r. fillna 0 (qty_used r)) data) \<noteq> []"
    using assms by (cases data) (simp_all add: tail_def)
  then show ?thesis by (simp add: fallback_average_def np_mean_def py_truediv_def)
qed

lemma sort_key_nonempty: "xs \<noteq> [] \<Longrightarrow> sort_key f xs \<noteq> []"
  by (metis length_sort list.size(3) length_0_conv)

lemma prepare_features_length: "length (prepare_features data) = length data"
  by (simp add: prepare_features_def Let_def)

text \<open>
  Claim C6, as amended. When the predictor raises during a per-day prediction call, the
  loop catches the exception and uses the mean of the last seven \<open>qty_used\<close> values of the
  history (nulls as 0) as that day's value: the rollout returns its points and no failure
  reaches the caller. When the predictor returns, the value is clamped at zero. An endpoint
  whose predictor fails on every row answers as its response builder does on the fallback
  points. When the predictor is not loaded, the endpoint answers 503 "Model not available"
  and uses no fallback.
\<close>

theorem rollout_failure_falls_back:
  "(data \<noteq> [] \<and> xgboost_model latest = Inl e \<longrightarrow>
      forecast_rollout xgboost_model latest data base_date H =
        Inr (constant_points base_date
               (sum_list (tail 7 (map (\<lambda>r. fillna 0 (qty_used r)) data)) /
                real (length (tail 7 (map (\<lambda>r. fillna 0 (qty_used r)) data))))
               [0..<nat H]))
   \<and> (xgboost_model latest = Inr v \<longrightarrow>
        forecast_rollout xgboost_model latest data base_date H =
          Inr (constant_points base_date (max 0 v) [0..<nat H]))
   \<and> (get_sku_history sku (today - 30) today = Inr history \<and> history \<noteq> [] \<and>
      (\<forall>row. xgboost_model row = Inl e) \<longrightarrow>
        predict_inventory_simple str_exc (Some xgboost_model) (Some get_sku_history)
          build_response today sku H =
        (let sorted = sort_key (\<lambda>r. toordinal (usage_date r)) history;
             recent = tail 7 (map (\<lambda>r. fillna 0 (qty_used r)) sorted)
         in case build_response sorted
                   (constant_points today (sum_list recent / real (length recent)) [0..<nat H]) of
              Inl e' \<Rightarrow> Inl (HTTPException 500 (''Prediction failed: '' @ str_exc e'))
            | Inr r \<Rightarrow> Inr r))
   \<and> predict_inventory_simple str_exc None db_loader build_response today sku H =
        Inl (HTTPException 503 ''Model not available'')"
proof (intro conjI impI)
  assume a: "data \<noteq> [] \<and> xgboost_model latest = Inl e"
  then show "forecast_rollout xgboost_model latest data base_date H =
        Inr (constant_points base_date
               (sum_list (tail 7 (map (\<lambda>r. fillna 0 (qty_used r)) data)) /
                real (length (tail 7 (map (\<lambda>r. fillna 0 (qty_used r)) data))))
               [0..<nat H])"
    unfolding forecast_rollout_def
    using rollout_loop_failure[of xgboost_model latest e data] fallback_average_nonempty[of data]
    by simp
next
  assume "xgboost_model latest = Inr v"
  then show "forecast_rollout xgboost_model latest data base_date H =
          Inr (constant_points base_date (max 0 v) [0..<nat H])"
    unfolding forecast_rollout_def by (rule rollout_loop_success)
next
  assume a: "get_sku_history sku (today - 30) today = Inr history \<and> history \<noteq> [] \<and>
      (\<forall>row. xgboost_model row = Inl e)"
  define sorted where "sorted = sort_key (\<lambda>r. toordinal (usage_date r)) history"
  define recent where "recent = tail 7 (map (\<lambda>r. fillna 0 (qty_used r)) sorted)"
  have ne: "sorted \<noteq> []" using a by (simp add: sorted_def sort_key_nonempty)
  have pf: "prepare_features sorted \<noteq> []"
    using ne prepare_features_length[of sorted] by auto
  have fail: "xgboost_model (last (prepare_features sorted)) = Inl e" using a by blast
  have roll: "forecast_rollout xgboost_model (last (prepare_features sorted)) sorted today H =
          Inr (constant_points today (sum_list recent / real (length recent)) [0..<nat H])"
    unfolding forecast_rollout_def recent_def
    using rollout_loop_failure[of xgboost_model "last (prepare_features sorted)" e sorted]
      fail fallback_average_nonempty[OF ne] by simp
  have "predict_inventory_simple str_exc (Some xgboost_model) (Some get_sku_history)
          build_response today sku H =
        (case build_response sorted
                   (constant_points today (sum_list recent / real (length recent)) [0..<nat H]) of
              Inl e' \<Rightarrow> Inl (HTTPException 500 (''Prediction failed: '' @ str_exc e'))
            | Inr r \<Rightarrow> Inr r)"
    using a pf roll
    by (simp add: predict_inventory_simple_def Let_def sorted_def[symmetric] split: sum.splits)
  then show "predict_inventory_simple str_exc (Some xgboost_model) (Some get_sku_history)
          build_response today sku H =
        (let sorted = sort_key (\<lambda>r. toordinal (usage_date r)) history;
             recent = tail 7 (map (\<lambda>r. fillna 0 (qty_used r)) sorted)
         in case build_response sorted
                   (constant_points today (sum_list recent / real (length recent)) [0..<nat H]) of
              Inl e' \<Rightarrow> Inl (HTTPException 500 (''Prediction failed: '' @ str_exc e'))
            | Inr r \<Rightarrow> Inr r)"
    by (simp add: Let_def sorted_def recent_def)
next
  show "predict_inventory_simple str_exc None db_loader build_response today sku H =
        Inl (HTTPException 503 ''Model not available'')"
    by (simp add: predict_inventory_simple_def)
qed

theorem rollout_failure_falls_back_witness:
  "[example_record (Some 4), example_record (Some 6)] \<noteq> []
   \<and> forecast_rollout (\<lambda>row. Inl (PredictorError ''feature shape mismatch'')) []
       [example_record (Some 4), example_record (Some 6)] 739924 2 =
       Inr [\<lparr>date = 739925, actual = None, predicted = Some 5,
             confidence_low = None, confidence_high = None\<rparr>,
            \<lparr>date = 739926, actual = None, predicted = Some 5,
             confidence_low = None, confidence_high = None\<rparr>]
   \<and> forecast_rollout (\<lambda>row. Inr (-3)) []
       [example_record (Some 4), example_record (Some 6)] 739924 1 =
       Inr [\<lparr>date = 739925, actual = None, predicted = Some 0,
             confidence_low = None, confidence_high = None\<rparr>]"
  using rollout_failure_falls_back[where data = "[example_record (Some 4), example_record (Some 6)]"
          and xgboost_model = "\<lambda>row. Inl (PredictorError ''feature shape mismatch'')"
          and latest = "[]" and e = "PredictorError ''feature shape mismatch''"
          and base_date = 739924 and H = 2, THEN conjunct1]
        rollout_failure_falls_back[where data = "[example_record (Some 4), example_record (Some 6)]"
          and xgboost_model = "\<lambda>row. Inr (-3)" and latest = "[]" and v = "-3"
          and base_date = 739924 and H = 1, THEN conjunct2, THEN conjunct1]
  by (simp add: constant_points_def tail_def fillna_def example_record_def numeral_eq_Suc)

text \<open>
  The claim as stated fails for a predictor that raises on every call: over a history with
  quantities 4 and 6 the rollout returns two points of value 5, their trailing average, and
  no error.
\<close>

theorem prediction_failure_propagated_counterexample:
  "forecast_rollout failing_predictor [] [example_record (Some 4), example_record (Some 6)]
     739924 2 =
     Inr [\<lparr>date = 739925, actual = None, predicted = Some 5,
           confidence_low = None, confidence_high = None\<rparr>,
          \<lparr>date = 739926, actual = None, predicted = Some 5,
           confidence_low = None, confidence_high = None\<rparr>]
   \<and> failing_predictor [] = Inl (PredictorError ''feature shape mismatch'')"
  by (simp add: forecast_rollout_def fallback_average_def np_mean_def py_truediv_def tail_def
        fillna_def example_record_def failing_predictor_def numeral_eq_Suc upt_rec)

subsection \<open>The points of the two rollouts\<close>

lemma constant_points_length: "length (constant_points b x days) = length days"
  by (simp add: constant_points_def)

lemma constant_points_nth:
  "k < n \<Longrightarrow>
   constant_points b x [0..<n] ! k =
     \<lparr>date = b + int k + 1, actual = None, predicted = Some x,
      confidence_low = None, confidence_high = None\<rparr>"
  by (simp add: constant_points_def)

lemma forecast_rollout_constant:
  assumes "data \<noteq> []"
  shows "\<exists>x. forecast_rollout xgboost_model latest data base_date H =
               Inr (constant_points base_date x [0..<nat H])"
proof (cases "xgboost_model latest")
  case (Inl e)
  have "rollout_loop xgboost_model latest data base_date [0..<nat H] =
          Inr (constant_points base_date
                 (sum_list (tail 7 (map (\<lambda>r. fillna 0 (qty_used r)) data)) /
                  real (length (tail 7 (map (\<lambda>r. fillna 0 (qty_used r)) data))))
                 [0..<nat H])"
    using rollout_loop_failure[of xgboost_model latest e data] Inl
      fallback_average_nonempty[OF assms] by simp
  then show ?thesis unfolding forecast_rollout_def by blast
next
  case (Inr v)
  have "rollout_loop xgboost_model latest data base_date [0..<nat H] =
          Inr (constant_points base_date (max 0 v) [0..<nat H])"
    using Inr by (rule rollout_loop_success)
  then show ?thesis unfolding forecast_rollout_def by blast
qed

text \<open>
  Claim C7, as amended. For every horizon \<open>H\<close> from 1 to 90 the rollout of the
  stacked-ensemble variant produces exactly \<open>H\<close> points, dated on the \<open>H\<close> days after the
  base date; every point has a predicted value \<open>p \<ge> 0\<close>, \<open>confidence_low = 0.85 * p\<close>
  and \<open>confidence_high = 1.15 * p\<close>, hence \<open>confidence_low \<le> p \<le> confidence_high\<close>. The
  single-model rollout of \<^verbatim>\<open>ml_simple.py\<close> over a non-empty history also produces exactly
  \<open>H\<close> points on the same dates, but its point class has no confidence fields, so its
  points carry no confidence band; when the predictor returns, the predicted value of
  every point is the prediction clamped at zero.
\<close>

theorem rollout_points_by_variant:
  assumes "1 \<le> H" and "H \<le> 90"
  shows "length (ensemble_rollout final_pred base_date H) = nat H
         \<and> (\<forall>k < nat H. \<exists>p.
               ensemble_rollout final_pred base_date H ! k =
                 \<lparr>date = base_date + int k + 1, actual = None, predicted = Some p,
                  confidence_low = Some (0.85 * p), confidence_high = Some (1.15 * p)\<rparr>
               \<and> 0 \<le> p \<and> 0.85 * p \<le> p \<and> p \<le> 1.15 * p)
         \<and> (data \<noteq> [] \<longrightarrow>
              (\<exists>points. forecast_rollout xgboost_model latest data base_date H = Inr points
                 \<and> length points = nat H
                 \<and> (\<forall>k < nat H. \<exists>p.
                       points ! k =
                         \<lparr>date = base_date + int k + 1, actual = None, predicted = Some p,
                          confidence_low = None, confidence_high = None\<rparr>)))
         \<and> (xgboost_model latest = Inr v \<longrightarrow>
              forecast_rollout xgboost_model latest data base_date H =
                Inr (constant_points base_date (max 0 v) [0..<nat H])
              \<and> 0 \<le> max 0 v)"
proof (intro conjI allI impI)
  show "length (ensemble_rollout final_pred base_date H) = nat H"
    by (rule ensemble_rollout_length)
next
  fix k assume "k < nat H"
  from ensemble_rollout_nth[OF this, of final_pred base_date] obtain p where
    p: "0 \<le> p" "ensemble_rollout final_pred base_date H ! k =
           \<lparr>date = base_date + int k + 1, actual = None, predicted = Some p,
            confidence_low = Some (0.85 * p), confidence_high = Some (1.15 * p)\<rparr>" by blast
  have "0.85 * p \<le> p" "p \<le> 1.15 * p" using p(1) by simp_all
  then show "\<exists>p. ensemble_rollout final_pred base_date H ! k =
                 \<lparr>date = base_date + int k + 1, actual = None, predicted = Some p,
                  confidence_low = Some (0.85 * p), confidence_high = Some (1.15 * p)\<rparr>
               \<and> 0 \<le> p \<and> 0.85 * p \<le> p \<and> p \<le> 1.15 * p"
    using p by blast
next
  assume "data \<noteq> []"
  from forecast_rollout_constant[OF this, of xgboost_model latest base_date H] obtain x where
    x: "forecast_rollout xgboost_model latest data base_date H =
          Inr (constant_points base_date x [0..<nat H])" by blast
  have "length (constant_points base_date x [0..<nat H]) = nat H"
    by (simp add: constant_points_length)
  moreover have "\<forall>k < nat H. \<exists>p. constant_points base_date x [0..<nat H] ! k =
                         \<lparr>date = base_date + int k + 1, actual = None, predicted = Some p,
                          confidence_low = None, confidence_high = None\<rparr>"
    using constant_points_nth by blast
  ultimately show "\<exists>points. forecast_rollout xgboost_model latest data base_date H = Inr points
                 \<and> length points = nat H
                 \<and> (\<forall>k < nat H. \<exists>p.
                       points ! k =
                         \<lparr>date = base_date + int k + 1, actual = None, predicted = Some p,
                          confidence_low = None, confidence_high = None\<rparr>)"
    using x by blast
next
  assume "xgboost_model latest = Inr v"
  then show "forecast_rollout xgboost_model latest data base_date H =
                Inr (constant_points base_date (max 0 v) [0..<nat H])"
    unfolding forecast_rollout_def by (rule rollout_loop_success)
next
  show "0 \<le> max 0 v" by simp
qed

theorem rollout_points_by_variant_witness:
  "(1::int) \<le> 1 \<and> (1::int) \<le> 90
   \<and> length (ensemble_rollout [ln 2] 739924 1) = 1
   \<and> ensemble_rollout [ln 2] 739924 1 =
       [\<lparr>date = 739925, actual = None, predicted = Some 1,
         confidence_low = Some (17 / 20), confidence_high = Some (23 / 20)\<rparr>]
   \<and> length (ensemble_rollout [0] 739924 90) = 90
   \<and> [example_record (Some 4)] \<noteq> []
   \<and> steady_predictor [] = Inr 10
   \<and> forecast_rollout steady_predictor [] [example_record (Some 4)] 739924 1 =
       Inr [\<lparr>date = 739925, actual = None, predicted = Some 10,
             confidence_low = None, confidence_high = None\<rparr>]"
proof -
  have h1: "(1::int) \<le> 1" and h90: "(1::int) \<le> 90" and h90': "(90::int) \<le> 90" by simp_all
  note a = rollout_points_by_variant[OF h1 h90, where final_pred = "[ln 2]"
      and base_date = 739924 and xgboost_model = steady_predictor and latest = "[]"
      and v = 10 and data = "[example_record (Some 4)]"]
  note b = rollout_points_by_variant[OF h90 h90', where final_pred = "[0]"
      and base_date = 739924, THEN conjunct1]
  show ?thesis using a b
    by (simp add: ensemble_rollout_def predict_with_ensemble_def np_expm1_def Let_def
          steady_predictor_def constant_points_def)
qed

text \<open>
  The claim as stated fails for the single-model rollout: with a predictor that returns 10
  the point of a one-day horizon has the predicted value 10 and no confidence bounds, where
  the claim asks for the bounds 8.5 and 11.5.
\<close>

theorem single_model_confidence_band_counterexample:
  "forecast_rollout steady_predictor [] [example_record (Some 4)] 739924 1 =
     Inr [\<lparr>date = 739925, actual = None, predicted = Some 10,
           confidence_low = None, confidence_high = None\<rparr>]
   \<and> (None :: real option) \<noteq> Some (0.85 * 10)
   \<and> (None :: real option) \<noteq> Some (1.15 * 10)"
  by (simp add: forecast_rollout_def steady_predictor_def)

section \<open>Properties of the feature builder\<close>

subsection \<open>Feature rows of \<^verbatim>\<open>ml_simple.py\<close>\<close>

lemma prepare_features_nth:
  assumes "i < length data"
  shows "take 10 (prepare_features data ! i) =
           [(''covers'', fillna 250 (covers (data ! i))),
            (''seasonality_factor'', fillna 1.0 (seasonality_factor (data ! i))),
            (''inventory_start'', fillna 0 (inventory_start (data ! i))),
            (''on_order_qty'', fillna 0 (on_order_qty (data ! i))),
            (''avg_daily_usage_7d'', fillna 0 (avg_daily_usage_7d (data ! i))),
            (''avg_daily_usage_28d'', fillna 0 (avg_daily_usage_28d (data ! i))),
            (''shelf_life_days'', fillna 30 (shelf_life_days (data ! i))),
            (''unit_cost'', fillna 1.0 (unit_cost (data ! i))),
            (''is_holiday'', fillna 0 (is_holiday (data ! i))),
            (''lead_time_days'', fillna 2 (lead_time_days (data ! i)))]"
  using assms by (simp add: prepare_features_def Let_def)

lemma map_of_take_prefix:
  "map_of (take n xs) k = Some v \<Longrightarrow> map_of xs k = Some v"
proof (induction xs arbitrary: n)
  case Nil
  then show ?case by simp
next
  case (Cons x xs)
  then show ?case by (cases n) (auto split: if_splits)
qed

lemma null_row_defaults:
  assumes "i < length data" and "all_optional_null (data ! i)"
    and "(c, d) \<in> set feature_default_table"
  shows "map_of (prepare_features data ! i) c = Some d"
proof -
  have "take 10 (prepare_features data ! i) = feature_default_table"
    using assms(1,2)
    by (simp add: prepare_features_nth all_optional_null_def fillna_def feature_default_table_def)
  moreover have "map_of feature_default_table c = Some d"
    using assms(3) by (intro map_of_is_SomeI) (simp_all add: feature_default_table_def)
  ultimately show ?thesis using map_of_take_prefix[of 10 "prepare_features data ! i" c d] by simp
qed

subsection \<open>The default loop of the data loader\<close>

lemma fill_default_other:
  "c \<noteq> fst cd \<Longrightarrow> fill_default row cd c = row c"
  by (cases cd) (simp add: fill_default_def split: option.splits)

lemma fill_default_same:
  "fill_default row (c, d) c = Some (Some (case row c of None \<Rightarrow> d | Some v \<Rightarrow> fillna d v))"
  by (simp add: fill_default_def split: option.splits)

lemma foldl_fill_default_other:
  "c \<notin> fst ` set ds \<Longrightarrow> foldl fill_default row ds c = row c"
  by (induction ds arbitrary: row) (simp_all add: fill_default_other)

lemma foldl_fill_default:
  assumes "distinct (map fst ds)" and "(c, d) \<in> set ds"
  shows "foldl fill_default row ds c =
           Some (Some (case row c of None \<Rightarrow> d | Some v \<Rightarrow> fillna d v))"
  using assms
proof (induction ds arbitrary: row)
  case Nil
  then show ?case by simp
next
  case (Cons x ds)
  show ?case
  proof (cases "x = (c, d)")
    case True
    then have "c \<notin> fst ` set ds" using Cons.prems(1) by auto
    then show ?thesis using True by (simp add: foldl_fill_default_other fill_default_same)
  next
    case False
    then have mem: "(c, d) \<in> set ds" using Cons.prems(2) by simp
    then have "c \<in> fst ` set ds" by force
    moreover have "fst x \<notin> fst ` set ds" using Cons.prems(1) by simp
    ultimately have "c \<noteq> fst x" by blast
    then have "fill_default row x c = row c" by (rule fill_default_other)
    moreover have "distinct (map fst ds)" using Cons.prems(1) by simp
    ultimately show ?thesis using Cons.IH[OF _ mem, of "fill_default row x"] by simp
  qed
qed

lemma numeric_defaults_distinct: "distinct (map fst numeric_defaults)"
  by (simp add: numeric_defaults_def)

lemma default_table_in_numeric_defaults:
  "set feature_default_table \<subseteq> set numeric_defaults"
  by (simp add: feature_default_table_def numeric_defaults_def)

lemma add_column_if_missing_apply:
  "add_column_if_missing col v row c =
     (if c = col \<and> row c = None then Some (Some v) else row c)"
  by (auto simp: add_column_if_missing_def split: option.splits)

lemma rename_column_other:
  "c \<noteq> old \<Longrightarrow> c \<noteq> new \<Longrightarrow> rename_column old new row c = row c"
  by (simp add: rename_column_def split: option.splits)

lemma default_table_columns:
  assumes "(c, d) \<in> set feature_default_table"
  shows "c \<noteq> ''units_sold_items_using''" "c \<noteq> ''units_sold_items_using_ing''"
    "c \<noteq> ''revenue_items_using''" "c \<noteq> ''revenue_items_using_ing''"
    "c = ''is_holiday'' \<Longrightarrow> d = 0" "c = ''lead_time_days'' \<Longrightarrow> d = 2"
  using assms by (auto simp: feature_default_table_def)

lemma loader_null_defaults:
  assumes "(c, d) \<in> set feature_default_table" and "row c = None \<or> row c = Some None"
  shows "add_derived_features row c = Some (Some d)"
proof -
  define row1 where "row1 = add_column_if_missing ''is_holiday'' 0 row"
  define row2 where "row2 = add_column_if_missing ''lead_time_days'' 2 row1"
  define row3 where
    "row3 = rename_column ''units_sold_items_using'' ''units_sold_items_using_ing'' row2"
  define row4 where "row4 = rename_column ''revenue_items_using'' ''revenue_items_using_ing'' row3"
  note cols = default_table_columns[OF assms(1)]
  have r1: "row1 c = None \<or> row1 c = Some None \<or> row1 c = Some (Some d)"
    using assms(2) cols(5) by (auto simp: row1_def add_column_if_missing_apply)
  have r2: "row2 c = None \<or> row2 c = Some None \<or> row2 c = Some (Some d)"
    using r1 cols(6) by (auto simp: row2_def add_column_if_missing_apply)
  have "row3 c = row2 c" unfolding row3_def using cols(1,2) by (rule rename_column_other)
  moreover have "row4 c = row3 c" unfolding row4_def using cols(3,4) by (rule rename_column_other)
  ultimately have r4: "row4 c = None \<or> row4 c = Some None \<or> row4 c = Some (Some d)"
    using r2 by simp
  have mem: "(c, d) \<in> set numeric_defaults"
    using assms(1) default_table_in_numeric_defaults by blast
  have "add_derived_features row = foldl fill_default row4 numeric_defaults"
    by (simp add: add_derived_features_def Let_def row1_def row2_def row3_def row4_def)
  then have "add_derived_features row c =
               Some (Some (case row4 c of None \<Rightarrow> d | Some v \<Rightarrow> fillna d v))"
    using foldl_fill_default[OF numeric_defaults_distinct mem, of row4] by simp
  then show ?thesis using r4 by (auto simp: fillna_def)
qed

text \<open>
  Claim C8. A feature row built from a usage record whose optional fields are all null
  has the documented default in every column of the feature default table: covers 250,
  seasonality_factor 1.0, inventory_start 0, on_order_qty 0, avg_daily_usage_7d 0,
  avg_daily_usage_28d 0, shelf_life_days 30, unit_cost 1.0, is_holiday 0 and
  lead_time_days 2. This holds for the feature rows of \<^verbatim>\<open>predict_inventory_simple\<close>, one per
  history row, and for the rows that the data loader completes, where a listed column may
  be null or missing from the frame.
\<close>

theorem feature_defaults_for_null_fields:
  "(i < length data \<and> all_optional_null (data ! i) \<and> (c, d) \<in> set feature_default_table \<longrightarrow>
      map_of (prepare_features data ! i) c = Some d)
   \<and> ((c, d) \<in> set feature_default_table \<and> (row c = None \<or> row c = Some None) \<longrightarrow>
        add_derived_features row c = Some (Some d))
   \<and> length (prepare_features data) = length data"
  using null_row_defaults loader_null_defaults by (simp add: prepare_features_def Let_def)

theorem feature_defaults_for_null_fields_witness:
  "(0::nat) < length [example_record None]
   \<and> all_optional_null ([example_record None] ! 0)
   \<and> (''covers'', 250) \<in> set feature_default_table
   \<and> (''shelf_life_days'', 30) \<in> set feature_default_table
   \<and> map_of (prepare_features [example_record None] ! 0) ''covers'' = Some 250
   \<and> map_of (prepare_features [example_record None] ! 0) ''shelf_life_days'' = Some 30
   \<and> add_derived_features (Map.empty(''covers'' \<mapsto> None)) ''covers'' = Some (Some 250)
   \<and> add_derived_features Map.empty ''lead_time_days'' = Some (Some 2)"
  using feature_defaults_for_null_fields[where data = "[example_record None]" and i = 0
          and c = "''covers''" and d = 250 and row = "Map.empty(''covers'' \<mapsto> None)"]
        feature_defaults_for_null_fields[where data = "[example_record None]" and i = 0
          and c = "''shelf_life_days''" and d = 30]
        feature_defaults_for_null_fields[where c = "''lead_time_days''" and d = 2
          and row = Map.empty, THEN conjunct2, THEN conjunct1]
  by (simp add: all_optional_null_def example_record_def feature_default_table_def)

end
